theory Spec2Isabelle
  imports Main
begin

section \<open>Cell addresses and grid ranges of pygsheets (grid_range.py)\<close>

text \<open>
  A shallow embedding of the classes \<open>Address\<close> and \<open>GridRange\<close>.
  Python integers are \<open>int\<close>, an absent coordinate (\<open>None\<close>) is \<open>None\<close> of
  \<open>int option\<close>, strings are \<open>string\<close> with one \<open>char\<close> per code point (so
  the model covers labels over the code points 0..255, where \<open>[A-Za-z]\<close> and
  \<open>\d\<close> are the ASCII letters and digits). Every \<open>raise\<close> and every failing
  \<open>assert\<close> is a value \<open>Inl e\<close> of a sum type.
\<close>

subsection \<open>Exceptions\<close>

datatype error =
    InvalidArgumentValue
  | IncorrectCellLabel
  | NotImplementedError
  | AssertionError
  | TypeError
  | AttributeError
  | PyException
  | Diverges

text \<open>
  \<open>Diverges\<close> is not a Python exception: it stands for a loop that never leaves
  (see \<open>column_label_loop\<close>), so that no outcome of the code is lost in the model.
\<close>

subsection \<open>Python builtins used by the module\<close>

definition ord :: "char \<Rightarrow> int" where
  "ord c = of_char c"

definition chr :: "int \<Rightarrow> char" where
  "chr n = char_of n"

text \<open>Truthiness of an optional integer: \<open>None\<close> and \<open>0\<close> are false.\<close>

fun truthy :: "int option \<Rightarrow> bool" where
  "truthy None = False"
| "truthy (Some n) = (n \<noteq> 0)"

text \<open>The character classes \<open>[A-Za-z]\<close> and \<open>\d\<close> of the label pattern.\<close>

definition is_alpha :: "char \<Rightarrow> bool" where
  "is_alpha c = ((65 \<le> ord c \<and> ord c \<le> 90) \<or> (97 \<le> ord c \<and> ord c \<le> 122))"

definition is_digit :: "char \<Rightarrow> bool" where
  "is_digit c = (48 \<le> ord c \<and> ord c \<le> 57)"

text \<open>\<open>str.upper\<close>, on the letters the pattern lets through.\<close>

definition upper_char :: "char \<Rightarrow> char" where
  "upper_char c = (if 97 \<le> ord c \<and> ord c \<le> 122 then chr (ord c - 32) else c)"

definition upper :: "string \<Rightarrow> string" where
  "upper s = map upper_char s"

text \<open>\<open>str(n)\<close> for an integer: decimal digits, a minus sign when negative.\<close>

function str_nat :: "nat \<Rightarrow> string" where
  "str_nat n = (if n < 10 then [chr (48 + int n)]
                else str_nat (n div 10) @ [chr (48 + int (n mod 10))])"
  by pat_completeness auto
termination
  by (relation "measure (\<lambda>n. n)") auto

declare str_nat.simps [simp del]

definition str_int :: "int \<Rightarrow> string" where
  "str_int i = (if i < 0 then CHR ''-'' # str_nat (nat (- i)) else str_nat (nat i))"

text \<open>\<open>int(s)\<close> for a string of decimal digits (the only strings the module passes).\<close>

definition int_of_digits :: "string \<Rightarrow> int" where
  "int_of_digits s = foldl (\<lambda>acc c. acc * 10 + (ord c - 48)) 0 s"

text \<open>\<open>s.split(sep)\<close> for a one-character separator.\<close>

fun split_on :: "char \<Rightarrow> string \<Rightarrow> string list" where
  "split_on sep [] = [[]]"
| "split_on sep (c # cs) =
     (if c = sep then [] # split_on sep cs
      else (case split_on sep cs of
              [] \<Rightarrow> [[c]]
            | w # ws \<Rightarrow> (c # w) # ws))"

subsection \<open>Address\<close>

record Address =
  addr_value :: "int option \<times> int option"
  allow_non_single :: bool

definition MAGIC_NUMBER :: int where
  "MAGIC_NUMBER = 64"

text \<open>
  \<open>Address._validate\<close>. The first test reads component 0 twice, as the source does;
  the two bounds tests are guarded by the truthiness of the component.
\<close>

definition validate :: "Address \<Rightarrow> error + unit" where
  "validate a =
     (if \<not> allow_non_single a \<and> (fst (addr_value a) = None \<or> fst (addr_value a) = None)
      then Inl InvalidArgumentValue
      else if truthy (fst (addr_value a)) \<and> the (fst (addr_value a)) < 1
      then Inl InvalidArgumentValue
      else if truthy (snd (addr_value a)) \<and> the (snd (addr_value a)) < 1
      then Inl InvalidArgumentValue
      else Inr ())"

text \<open>
  The \<open>while div:\<close> loop of \<open>_value_as_label\<close>, with Python's floor \<open>divmod\<close>.
  For a negative \<open>div\<close> the quotient stays negative (also after the borrow), so the
  Python loop never reaches \<open>0\<close>: that outcome is \<open>None\<close>.
\<close>

function column_label_loop :: "int \<Rightarrow> string \<Rightarrow> string option" where
  "column_label_loop d column_label =
     (if d = 0 then Some column_label
      else if d < 0 then None
      else (let q = d div 26; m = d mod 26
            in if m = 0 then column_label_loop (q - 1) (chr (26 + MAGIC_NUMBER) # column_label)
               else column_label_loop q (chr (m + MAGIC_NUMBER) # column_label)))"
  by pat_completeness auto
termination
  by (relation "measure (\<lambda>(d, s). nat d)") auto

declare column_label_loop.simps [simp del]

definition value_as_label :: "Address \<Rightarrow> error + string" where
  "value_as_label a =
     (case validate a of
        Inl e \<Rightarrow> Inl e
      | Inr _ \<Rightarrow>
          (let row_label = (if truthy (fst (addr_value a))
                            then str_int (the (fst (addr_value a))) else [])
           in if truthy (snd (addr_value a))
              then (case column_label_loop (the (snd (addr_value a))) [] of
                      None \<Rightarrow> Inl Diverges
                    | Some column_label \<Rightarrow> Inr (column_label @ row_label))
              else Inr ([] @ row_label)))"

text \<open>
  \<open>for i, c in enumerate(reversed(column_label)): col += (ord(c) - 64) * 26 ** i\<close>.
\<close>

fun col_loop :: "nat \<Rightarrow> string \<Rightarrow> int \<Rightarrow> int" where
  "col_loop i [] col = col"
| "col_loop i (c # cs) col = col_loop (Suc i) cs (col + (ord c - MAGIC_NUMBER) * 26 ^ i)"

text \<open>
  \<open>Address._label_to_coordinates\<close>. \<open>re.match\<close> anchors the pattern
  \<open>([A-Za-z]*)(\d*)\<close> at the start of the label only; both groups may be empty, so
  the match object always exists: group 1 is the longest run of letters at the start,
  group 2 the longest run of digits after it, and what follows is not looked at.
\<close>

definition re_match_label :: "string \<Rightarrow> (string \<times> string) option" where
  "re_match_label label =
     Some (takeWhile is_alpha label, takeWhile is_digit (dropWhile is_alpha label))"

definition label_to_coordinates :: "bool \<Rightarrow> string \<Rightarrow> error + (int option \<times> int option)" where
  "label_to_coordinates ans label =
     (case re_match_label label of
        None \<Rightarrow> Inl IncorrectCellLabel
      | Some (g1, g2) \<Rightarrow>
          (let column_label = upper g1;
               col = (if column_label \<noteq> [] then Some (col_loop 0 (rev column_label) 0) else None);
               row = (if g2 \<noteq> [] then Some (int_of_digits g2) else None)
           in if \<not> ans \<and> \<not> (truthy row \<and> truthy col) then Inl IncorrectCellLabel
              else Inr (row, col)))"

text \<open>The values the constructor tells apart by \<open>isinstance\<close>.\<close>

datatype addr_arg =
    Str string
  | Tup "int option" "int option"
  | PyNone
  | Addr Address
  | Other bool

text \<open>\<open>Address.__bool__\<close>.\<close>

definition addr_bool :: "Address \<Rightarrow> bool" where
  "addr_bool a = (\<not> (fst (addr_value a) = None \<and> snd (addr_value a) = None))"

fun arg_truthy :: "addr_arg \<Rightarrow> bool" where
  "arg_truthy (Str s) = (s \<noteq> [])"
| "arg_truthy (Tup r c) = True"
| "arg_truthy PyNone = False"
| "arg_truthy (Addr a) = addr_bool a"
| "arg_truthy (Other b) = b"

definition checked :: "Address \<Rightarrow> error + Address" where
  "checked a = (case validate a of Inl e \<Rightarrow> Inl e | Inr _ \<Rightarrow> Inr a)"

text \<open>
  \<open>Address.__init__\<close>; \<open>Other b\<close> is a value of any other type, with truthiness \<open>b\<close>.
\<close>

fun Address_init :: "addr_arg \<Rightarrow> bool \<Rightarrow> error + Address" where
  "Address_init (Str s) ans =
     (case label_to_coordinates ans s of
        Inl e \<Rightarrow> Inl e
      | Inr v \<Rightarrow> Inr \<lparr>addr_value = v, allow_non_single = ans\<rparr>)"
| "Address_init (Tup r c) ans = checked \<lparr>addr_value = (r, c), allow_non_single = ans\<rparr>"
| "Address_init v ans =
     (if \<not> arg_truthy v \<and> ans
      then checked \<lparr>addr_value = (None, None), allow_non_single = ans\<rparr>
      else (case v of
              Addr a \<Rightarrow>
                (case value_as_label a of
                   Inl e \<Rightarrow> Inl e
                 | Inr l \<Rightarrow>
                     (case label_to_coordinates ans l of
                        Inl e \<Rightarrow> Inl e
                      | Inr w \<Rightarrow> Inr \<lparr>addr_value = w, allow_non_single = ans\<rparr>))
            | _ \<Rightarrow> Inl IncorrectCellLabel))"

text \<open>
  \<open>Address.__add__\<close> and \<open>Address.__sub__\<close> with a 2-tuple or an Address as the
  other operand (given by its two components); \<open>None\<close> in a component is a
  \<open>TypeError\<close> of the integer operation.
\<close>

definition Address_add :: "Address \<Rightarrow> int option \<times> int option \<Rightarrow> error + Address" where
  "Address_add a other =
     (case (fst (addr_value a), fst other, snd (addr_value a), snd other) of
        (Some r, Some r', Some c, Some c') \<Rightarrow>
          Address_init (Tup (Some (r + r')) (Some (c + c'))) False
      | _ \<Rightarrow> Inl TypeError)"

definition Address_sub :: "Address \<Rightarrow> int option \<times> int option \<Rightarrow> error + Address" where
  "Address_sub a other =
     (case (fst (addr_value a), fst other, snd (addr_value a), snd other) of
        (Some r, Some r', Some c, Some c') \<Rightarrow>
          Address_init (Tup (Some (r - r')) (Some (c - c'))) False
      | _ \<Rightarrow> Inl TypeError)"

subsection \<open>GridRange\<close>

text \<open>
  The worksheet is an external collaborator; the module reads its \<open>id\<close>, \<open>title\<close>,
  \<open>rows\<close> and \<open>cols\<close> only. A worksheet object is taken to be truthy, as any
  object without \<open>__bool__\<close> and \<open>__len__\<close> is.
\<close>

record Worksheet =
  sheet_id :: int
  title :: string
  rows :: int
  cols :: int

text \<open>
  The fields \<open>_worksheet_title\<close>, \<open>_worksheet_id\<close>, \<open>_worksheet\<close>, \<open>_label\<close>,
  \<open>_start\<close> and \<open>_end\<close>. Addresses are held by value: the module's own in-place
  updates (\<open>__setitem__\<close> in \<open>_apply_index_constraints\<close>) write \<open>None\<close> to the
  same axis of both ends, or to an axis that is already \<open>None\<close> in the other end, so
  that two fields sharing one Address object cannot be told from two equal copies by
  the methods modelled here.
\<close>

record GridRange =
  gr_worksheet_title :: "string option"
  gr_worksheet_id :: "int option"
  gr_worksheet :: "Worksheet option"
  gr_label :: "string option"
  gr_start :: Address
  gr_end :: Address

text \<open>
  A method that mutates the range returns the range it leaves behind, also when it
  raises: \<open>Inl (e, g')\<close> is the exception \<open>e\<close> with the object in state \<open>g'\<close>.
\<close>

type_synonym 'a result = "(error \<times> GridRange) + 'a"

definition worksheet_id :: "GridRange \<Rightarrow> int option" where
  "worksheet_id g =
     (case gr_worksheet g of Some w \<Rightarrow> Some (sheet_id w) | None \<Rightarrow> gr_worksheet_id g)"

definition worksheet_title :: "GridRange \<Rightarrow> string option" where
  "worksheet_title g =
     (case gr_worksheet g of Some w \<Rightarrow> Some (title w) | None \<Rightarrow> gr_worksheet_title g)"

text \<open>\<open>GridRange._calculate_label\<close>.\<close>

definition calculate_label :: "GridRange \<Rightarrow> GridRange result" where
  "calculate_label g =
     (let label = (case worksheet_title g of None \<Rightarrow> [] | Some t \<Rightarrow> t)
      in if addr_bool (gr_start g) \<and> addr_bool (gr_end g)
         then (case value_as_label (gr_start g) of
                 Inl e \<Rightarrow> Inl (e, g)
               | Inr sl \<Rightarrow>
                   (case value_as_label (gr_end g) of
                      Inl e \<Rightarrow> Inl (e, g)
                    | Inr el \<Rightarrow> Inr (g\<lparr>gr_label := Some (label @ ''!'' @ sl @ '':'' @ el)\<rparr>)))
         else Inr (g\<lparr>gr_label := Some label\<rparr>))"

text \<open>The setters of \<open>worksheet_id\<close> and \<open>worksheet_title\<close>.\<close>

definition set_worksheet_id :: "int option \<Rightarrow> GridRange \<Rightarrow> GridRange result" where
  "set_worksheet_id v g =
     (case gr_worksheet g of
        Some w \<Rightarrow> (if Some (sheet_id w) = v then Inr g else Inl (InvalidArgumentValue, g))
      | None \<Rightarrow> Inr (g\<lparr>gr_worksheet_id := v\<rparr>))"

definition set_worksheet_title :: "string \<Rightarrow> GridRange \<Rightarrow> GridRange result" where
  "set_worksheet_title v g =
     (case gr_worksheet g of
        Some w \<Rightarrow> (if title w = v then Inr g else Inl (InvalidArgumentValue, g))
      | None \<Rightarrow> calculate_label (g\<lparr>gr_worksheet_title := Some v\<rparr>))"

definition set_worksheet :: "Worksheet \<Rightarrow> GridRange \<Rightarrow> GridRange result" where
  "set_worksheet w g =
     calculate_label (g\<lparr>gr_worksheet := Some w, gr_worksheet_id := Some (sheet_id w),
                        gr_worksheet_title := Some (title w)\<rparr>)"

text \<open>\<open>Address.__setitem__\<close> with key 0 or 1; no validation follows it.\<close>

definition setitem :: "nat \<Rightarrow> int option \<Rightarrow> Address \<Rightarrow> Address" where
  "setitem k v a =
     (if k = 0 then a\<lparr>addr_value := (v, snd (addr_value a))\<rparr>
      else a\<lparr>addr_value := (fst (addr_value a), v)\<rparr>)"

text \<open>
  \<open>GridRange._apply_index_constraints\<close>, in its three parts: the propagation of
  unbound axes, the test for an axis bound at one end only, and the two assertions.
\<close>

definition propagate :: "string \<Rightarrow> GridRange \<Rightarrow> GridRange" where
  "propagate based_on g =
     (let s = gr_start g; e = gr_end g
      in if based_on = ''start'' then
           (if \<not> addr_bool s then (if addr_bool e then g\<lparr>gr_start := e\<rparr> else g)
            else if fst (addr_value s) = None \<or> fst (addr_value e) = None
            then g\<lparr>gr_start := setitem 0 None s, gr_end := setitem 0 None e\<rparr>
            else if snd (addr_value s) = None \<or> snd (addr_value e) = None
            then g\<lparr>gr_start := setitem 1 None s, gr_end := setitem 1 None e\<rparr>
            else g)
         else if based_on = ''end'' then
           (if \<not> addr_bool e then (if addr_bool s then g\<lparr>gr_end := s\<rparr> else g)
            else if fst (addr_value e) = None then g\<lparr>gr_start := setitem 0 None s\<rparr>
            else if snd (addr_value e) = None then g\<lparr>gr_start := setitem 1 None s\<rparr>
            else g)
         else g)"

definition axis_mismatch :: "GridRange \<Rightarrow> bool" where
  "axis_mismatch g =
     (let s = addr_value (gr_start g); e = addr_value (gr_end g)
      in (truthy (fst s) \<and> \<not> truthy (fst e)) \<or> (\<not> truthy (fst s) \<and> truthy (fst e)) \<or>
         (truthy (snd s) \<and> \<not> truthy (snd e)) \<or> (\<not> truthy (snd s) \<and> truthy (snd e)))"

definition collapse :: "string \<Rightarrow> GridRange \<Rightarrow> GridRange" where
  "collapse based_on g =
     (if based_on = ''start'' then g\<lparr>gr_start := gr_start g, gr_end := gr_start g\<rparr>
      else g\<lparr>gr_start := gr_end g, gr_end := gr_end g\<rparr>)"

text \<open>\<open>assert a <= b\<close> on two components; comparing with \<open>None\<close> is a \<open>TypeError\<close>.\<close>

fun assert_le :: "int option \<Rightarrow> int option \<Rightarrow> error option" where
  "assert_le (Some a) (Some b) = (if a \<le> b then None else Some AssertionError)"
| "assert_le _ _ = Some TypeError"

definition check_order :: "GridRange \<Rightarrow> error option" where
  "check_order g =
     (let s = addr_value (gr_start g); e = addr_value (gr_end g)
      in if addr_bool (gr_start g) \<and> addr_bool (gr_end g) then
           (case (if truthy (fst s) then assert_le (fst s) (fst e) else None) of
              Some err \<Rightarrow> Some err
            | None \<Rightarrow> (if truthy (snd s) then assert_le (snd s) (snd e) else None))
         else None)"

definition apply_index_constraints :: "string \<Rightarrow> GridRange \<Rightarrow> GridRange result" where
  "apply_index_constraints based_on g =
     (if \<not> addr_bool (gr_start g) \<and> \<not> addr_bool (gr_end g) then Inr g
      else (let g1 = propagate based_on g
            in if axis_mismatch g1 then Inl (InvalidArgumentValue, collapse based_on g1)
               else (case check_order g1 of
                       Some err \<Rightarrow> Inl (err, g1)
                     | None \<Rightarrow> calculate_label g1)))"

text \<open>
  \<open>GridRange._calculate_addresses\<close>. The local \<open>label\<close> is read before the title
  setter rewrites \<open>_label\<close>; \<open>label.split\<close> on \<open>None\<close> is an \<open>AttributeError\<close>.
\<close>

definition calculate_addresses :: "GridRange \<Rightarrow> GridRange result" where
  "calculate_addresses g =
     (case gr_label g of
        None \<Rightarrow> Inl (AttributeError, g)
      | Some label \<Rightarrow>
          (let parts = split_on CHR ''!'' label
           in case set_worksheet_title (parts ! 0) g of
                Inl x \<Rightarrow> Inl x
              | Inr g1 \<Rightarrow>
                  (case Address_init PyNone True of
                     Inl e \<Rightarrow> Inl (e, g1)
                   | Inr u \<Rightarrow>
                       (let g2 = g1\<lparr>gr_start := u, gr_end := u\<rparr>
                        in if length parts > 1 then
                             (let rem = parts ! 1
                              in if CHR '':'' \<in> set rem then
                                   (case Address_init (Str (split_on CHR '':'' rem ! 0)) True of
                                      Inl e \<Rightarrow> Inl (e, g2)
                                    | Inr s \<Rightarrow>
                                        (case Address_init (Str (split_on CHR '':'' rem ! 1)) True of
                                           Inl e \<Rightarrow> Inl (e, g2\<lparr>gr_start := s\<rparr>)
                                         | Inr e \<Rightarrow>
                                             apply_index_constraints ''start''
                                               (g2\<lparr>gr_start := s, gr_end := e\<rparr>)))
                                 else
                                   (case Address_init (Str rem) True of
                                      Inl e \<Rightarrow> Inl (e, g2)
                                    | Inr s \<Rightarrow>
                                        apply_index_constraints ''start'' (g2\<lparr>gr_start := s\<rparr>)))
                           else apply_index_constraints ''start'' g2))))"

text \<open>
  The wire JSON object: a Python dict, kept in insertion order; a value is an integer
  or \<open>None\<close>.
\<close>

type_synonym json = "(string \<times> int option) list"

definition json_get :: "json \<Rightarrow> string \<Rightarrow> int option" where
  "json_get j k = (case map_of j k of None \<Rightarrow> None | Some v \<Rightarrow> v)"

text \<open>\<open>GridRange.to_json\<close>.\<close>

definition to_json :: "GridRange \<Rightarrow> (json \<times> GridRange) result" where
  "to_json g =
     (if worksheet_id g = None then Inl (PyException, g)
      else (case calculate_addresses g of
              Inl x \<Rightarrow> Inl x
            | Inr g1 \<Rightarrow>
                (let s = addr_value (gr_start g1); e = addr_value (gr_end g1);
                     d0 = [(''sheetId'', worksheet_id g1)];
                     d1 = (if truthy (fst s)
                           then d0 @ [(''startRowIndex'', Some (the (fst s) - 1))] else d0);
                     d2 = (if truthy (snd s)
                           then d1 @ [(''startColumnIndex'', fst s)] else d1);
                     d3 = (if truthy (fst e)
                           then d2 @ [(''endRowIndex'', Some (the (fst e) - 1))] else d2);
                     d4 = (if truthy (snd e)
                           then d3 @ [(''endColumnIndex'', snd e)] else d3)
                 in Inr (d4, g1))))"

text \<open>\<open>GridRange.set_json\<close>.\<close>

definition set_json :: "json \<Rightarrow> GridRange \<Rightarrow> GridRange result" where
  "set_json namedjson g =
     (case (if ''sheetId'' \<in> fst ` set namedjson
            then set_worksheet_id (json_get namedjson ''sheetId'') g else Inr g) of
        Inl x \<Rightarrow> Inl x
      | Inr g1 \<Rightarrow>
          (let start_row_idx = json_get namedjson ''startRowIndex'';
               end_row_idx = json_get namedjson ''endRowIndex'';
               start_col_idx = json_get namedjson ''startColumnIndex'';
               end_col_idx = json_get namedjson ''endColumnIndex'';
               start_row_idx = (case start_row_idx of Some i \<Rightarrow> Some (i + 1) | None \<Rightarrow> None);
               start_col_idx = (case start_col_idx of Some i \<Rightarrow> Some (i + 1) | None \<Rightarrow> None)
           in case Address_init (Tup start_row_idx start_col_idx) True of
                Inl e \<Rightarrow> Inl (e, g1)
              | Inr s \<Rightarrow>
                  (case Address_init (Tup end_row_idx end_col_idx) True of
                     Inl e \<Rightarrow> Inl (e, g1\<lparr>gr_start := s\<rparr>)
                   | Inr e \<Rightarrow> calculate_label (g1\<lparr>gr_start := s, gr_end := e\<rparr>))))"

text \<open>\<open>GridRange.get_bounded_indexes\<close>, \<open>height\<close> and \<open>width\<close>; they read only.\<close>

definition get_bounded_indexes :: "GridRange \<Rightarrow> error + (Address \<times> Address)" where
  "get_bounded_indexes g =
     (case gr_worksheet g of
        None \<Rightarrow> Inl InvalidArgumentValue
      | Some w \<Rightarrow>
          (let sv = (if addr_bool (gr_start g) then addr_value (gr_start g) else (None, None));
               ev = (if addr_bool (gr_end g) then addr_value (gr_end g) else (None, None));
               start_r = (if truthy (fst sv) then fst sv else Some 0);
               start_c = (if truthy (snd sv) then snd sv else Some 0);
               end_r = (if truthy (fst ev) then fst ev else Some (rows w));
               end_c = (if truthy (snd ev) then snd ev else Some (cols w))
           in case Address_init (Tup start_r start_c) False of
                Inl e \<Rightarrow> Inl e
              | Inr s \<Rightarrow>
                  (case Address_init (Tup end_r end_c) False of
                     Inl e \<Rightarrow> Inl e
                   | Inr e \<Rightarrow> Inr (s, e))))"

fun py_extent :: "int option \<Rightarrow> int option \<Rightarrow> error + int" where
  "py_extent (Some e) (Some s) = Inr (e - s + 1)"
| "py_extent _ _ = Inl TypeError"

definition height :: "GridRange \<Rightarrow> error + int" where
  "height g =
     (case get_bounded_indexes g of
        Inl e \<Rightarrow> Inl e
      | Inr (s, e) \<Rightarrow> py_extent (fst (addr_value e)) (fst (addr_value s)))"

definition width :: "GridRange \<Rightarrow> error + int" where
  "width g =
     (case get_bounded_indexes g of
        Inl e \<Rightarrow> Inl e
      | Inr (s, e) \<Rightarrow> py_extent (snd (addr_value e)) (snd (addr_value s)))"

text \<open>
  The setters of \<open>start\<close>, \<open>end\<close>, \<open>indexes\<close> (given a 2-tuple) and \<open>label\<close>
  (given a string). Each calls \<open>_apply_index_constraints\<close> with its default
  \<open>based_on='start'\<close>.
\<close>

definition then_calculate_label :: "GridRange result \<Rightarrow> GridRange result" where
  "then_calculate_label r = (case r of Inl x \<Rightarrow> Inl x | Inr g \<Rightarrow> calculate_label g)"

definition set_start :: "addr_arg \<Rightarrow> GridRange \<Rightarrow> GridRange result" where
  "set_start v g =
     (case Address_init v True of
        Inl e \<Rightarrow> Inl (e, g)
      | Inr a \<Rightarrow> then_calculate_label (apply_index_constraints ''start'' (g\<lparr>gr_start := a\<rparr>)))"

definition set_end :: "addr_arg \<Rightarrow> GridRange \<Rightarrow> GridRange result" where
  "set_end v g =
     (case Address_init v True of
        Inl e \<Rightarrow> Inl (e, g)
      | Inr a \<Rightarrow> then_calculate_label (apply_index_constraints ''start'' (g\<lparr>gr_end := a\<rparr>)))"

definition set_indexes :: "addr_arg \<times> addr_arg \<Rightarrow> GridRange \<Rightarrow> GridRange result" where
  "set_indexes v g =
     (case Address_init (fst v) True of
        Inl e \<Rightarrow> Inl (e, g)
      | Inr s \<Rightarrow>
          (case Address_init (snd v) True of
             Inl e \<Rightarrow> Inl (e, g)
           | Inr e \<Rightarrow>
               then_calculate_label
                 (apply_index_constraints ''start'' (g\<lparr>gr_start := s, gr_end := e\<rparr>))))"

definition set_label :: "string \<Rightarrow> GridRange \<Rightarrow> GridRange result" where
  "set_label v g = calculate_addresses (g\<lparr>gr_label := Some v\<rparr>)"

text \<open>
  \<open>GridRange.__init__\<close>; the arguments in the order of the signature. An exception
  leaves no object, so only the error is returned.
\<close>

definition GridRange_init ::
  "string option \<Rightarrow> Worksheet option \<Rightarrow> addr_arg \<Rightarrow> addr_arg \<Rightarrow> string option \<Rightarrow> int option \<Rightarrow>
   json option \<Rightarrow> error + GridRange" where
  "GridRange_init label worksheet start end' worksheet_title' worksheet_id' namedjson =
     (case Address_init start True of
        Inl e \<Rightarrow> Inl e
      | Inr s \<Rightarrow>
          (case Address_init end' True of
             Inl e \<Rightarrow> Inl e
           | Inr e \<Rightarrow>
               (let g = \<lparr>gr_worksheet_title = worksheet_title', gr_worksheet_id = worksheet_id',
                         gr_worksheet = worksheet, gr_label = label, gr_start = s, gr_end = e\<rparr>;
                    r = (if namedjson \<noteq> None \<and> namedjson \<noteq> Some [] then set_json (the namedjson) g
                         else if label \<noteq> None \<and> label \<noteq> Some [] then calculate_addresses g
                         else then_calculate_label (apply_index_constraints ''start'' g))
                in case r of Inl (err, _) \<Rightarrow> Inl err | Inr g' \<Rightarrow> Inr g')))"

subsection \<open>Notions used in the proofs\<close>

text \<open>
  The capital letters, which are all that \<open>_value_as_label\<close> writes, and the value
  the parser gives to a run of letters.
\<close>

definition is_upper_letter :: "char \<Rightarrow> bool" where
  "is_upper_letter c = (65 \<le> ord c \<and> ord c \<le> 90)"

definition col_of :: "string \<Rightarrow> int" where
  "col_of s = col_loop 0 (rev s) 0"

text \<open>
  The ranges the constructor and the setters build: both ends made with
  \<open>allow_non_single=True\<close> and passing \<open>_validate\<close>. A tuple component that is
  \<open>None\<close> or at least 1.
\<close>

definition valid_ends :: "GridRange \<Rightarrow> bool" where
  "valid_ends g =
     (allow_non_single (gr_start g) \<and> allow_non_single (gr_end g)
      \<and> validate (gr_start g) = Inr () \<and> validate (gr_end g) = Inr ())"

definition bound_or_absent :: "int option \<Rightarrow> bool" where
  "bound_or_absent x = (case x of None \<Rightarrow> True | Some n \<Rightarrow> 1 \<le> n)"

section \<open>Properties\<close>

subsection \<open>Validation of coordinates\<close>

text \<open>
  Claim C2. A numeric component below 1 is to raise \<open>InvalidArgumentValue\<close>:
  \<open>Address((0, 1))\<close>, \<open>Address((1, 0))\<close> and \<open>Address("A1") - (0, 1)\<close>.
  The code evaluated at these three inputs: the bounds test \<open>row < 1\<close> is behind
  the truthiness test of the component, which \<open>0\<close> does not pass, so each of the
  three is constructed with its zero coordinate.
\<close>

theorem Address_zero_coordinate_accepted:
  "Address_init (Tup (Some 0) (Some 1)) False
     = Inr \<lparr>addr_value = (Some 0, Some 1), allow_non_single = False\<rparr>
   \<and> Address_init (Tup (Some 1) (Some 0)) False
     = Inr \<lparr>addr_value = (Some 1, Some 0), allow_non_single = False\<rparr>
   \<and> (case Address_init (Str ''A1'') False of
        Inl e \<Rightarrow> Inl e
      | Inr a \<Rightarrow> Address_sub a (Some 0, Some 1))
     = Inr \<lparr>addr_value = (Some 1, Some 0), allow_non_single = False\<rparr>"
  by code_simp

text \<open>
  Claim C10. With \<open>allow_non_single\<close> false a missing row or a missing column is
  to raise. The code evaluated at \<open>Address((1, None))\<close> and \<open>Address((None, 1))\<close>:
  the test reads component 0 twice, so the missing column goes through and only the
  missing row raises.
\<close>

theorem Address_missing_col_accepted:
  "Address_init (Tup (Some 1) None) False
     = Inr \<lparr>addr_value = (Some 1, None), allow_non_single = False\<rparr>
   \<and> Address_init (Tup None (Some 1)) False = Inl InvalidArgumentValue"
  by code_simp

subsection \<open>Parsing of labels\<close>

text \<open>
  Claim C7. A string that is not a run of letters followed by a run of digits is to
  raise \<open>IncorrectCellLabel\<close>. The code evaluated at \<open>Address("A1B2")\<close>, and at
  \<open>Address("1A", allow_non_single=True)\<close>: the pattern is not anchored at the end,
  so the prefix \<open>A1\<close> (respectively \<open>1\<close>) is parsed and the rest is dropped.
\<close>

theorem Address_label_prefix_parsed:
  "Address_init (Str ''A1B2'') False
     = Inr \<lparr>addr_value = (Some 1, Some 1), allow_non_single = False\<rparr>
   \<and> Address_init (Str ''1A'') True
     = Inr \<lparr>addr_value = (Some 1, None), allow_non_single = True\<rparr>"
  by code_simp

subsection \<open>Round trip of labels\<close>

lemma ord_chr: "0 \<le> n \<Longrightarrow> n < 256 \<Longrightarrow> ord (chr n) = n"
  by (simp add: ord_def chr_def)

lemma str_nat_digits: "\<forall>ch \<in> set (str_nat n). is_digit ch"
proof (induction n rule: str_nat.induct)
  case (1 n)
  show ?case
  proof (cases "n < 10")
    case True
    then show ?thesis
      by (subst str_nat.simps) (simp add: is_digit_def ord_chr)
  next
    case False
    have "n mod 10 < 10" by simp
    then have "is_digit (chr (48 + int (n mod 10)))"
      by (simp add: is_digit_def ord_chr)
    with False 1 show ?thesis
      by (subst str_nat.simps) simp
  qed
qed

lemma str_nat_nonempty: "str_nat n \<noteq> []"
  by (subst str_nat.simps) simp

lemma int_of_digits_snoc:
  "int_of_digits (s @ [c]) = int_of_digits s * 10 + (ord c - 48)"
  by (simp add: int_of_digits_def)

lemma int_of_digits_str_nat: "int_of_digits (str_nat n) = int n"
proof (induction n rule: str_nat.induct)
  case (1 n)
  show ?case
  proof (cases "n < 10")
    case True
    then show ?thesis
      by (subst str_nat.simps) (simp add: int_of_digits_def ord_chr)
  next
    case False
    have "n mod 10 < 10" by simp
    then have d: "ord (chr (48 + int (n mod 10))) = 48 + int (n mod 10)"
      by (simp add: ord_chr)
    have "int_of_digits (str_nat n) = int_of_digits (str_nat (n div 10)) * 10 + int (n mod 10)"
      using False by (subst str_nat.simps) (simp add: int_of_digits_snoc d)
    also have "\<dots> = int (n div 10) * 10 + int (n mod 10)"
      using 1 False by simp
    also have "\<dots> = int (n div 10 * 10 + n mod 10)"
      by (simp only: of_nat_add of_nat_mult of_nat_numeral)
    also have "\<dots> = int n"
      by (simp only: div_mult_mod_eq)
    finally show ?thesis .
  qed
qed

lemma col_loop_snoc:
  "col_loop i (xs @ [x]) a = col_loop i xs a + (ord x - MAGIC_NUMBER) * 26 ^ (i + length xs)"
  by (induction xs arbitrary: i a) simp_all

lemma col_of_Cons: "col_of (x # s) = col_of s + (ord x - MAGIC_NUMBER) * 26 ^ length s"
  by (simp add: col_of_def col_loop_snoc)

lemma column_label_loop_inv:
  "0 \<le> d \<Longrightarrow> \<exists>s. column_label_loop d acc = Some s
      \<and> col_of s = d * 26 ^ length acc + col_of acc
      \<and> ((\<forall>ch \<in> set acc. is_upper_letter ch) \<longrightarrow> (\<forall>ch \<in> set s. is_upper_letter ch))"
proof (induction d acc rule: column_label_loop.induct)
  case (1 d acc)
  show ?case
  proof (cases "d = 0")
    case True
    then show ?thesis by (subst column_label_loop.simps) simp
  next
    case nz: False
    with 1 have pos: "0 < d" by simp
    define q where "q = d div 26"
    define m where "m = d mod 26"
    have dqm: "d = 26 * q + m" by (simp add: q_def m_def)
    have mr: "0 \<le> m" "m < 26" by (simp_all add: m_def)
    have q0: "0 \<le> q" using pos by (simp add: q_def pos_imp_zdiv_nonneg_iff)
    show ?thesis
    proof (cases "m = 0")
      case True
      then have "1 \<le> q" using dqm pos by simp
      then have qq: "0 \<le> q - 1" by simp
      have "\<exists>s. column_label_loop (q - 1) (chr (26 + MAGIC_NUMBER) # acc) = Some s
        \<and> col_of s = (q - 1) * 26 ^ length (chr (26 + MAGIC_NUMBER) # acc) + col_of (chr (26 + MAGIC_NUMBER) # acc)
        \<and> ((\<forall>ch \<in> set (chr (26 + MAGIC_NUMBER) # acc). is_upper_letter ch) \<longrightarrow> (\<forall>ch \<in> set s. is_upper_letter ch))"
        using nz pos True qq by (intro "1.IH"(1)[of q m]) (simp_all add: q_def m_def)
      then obtain s where s: "column_label_loop (q - 1) (chr (26 + MAGIC_NUMBER) # acc) = Some s"
        "col_of s = (q - 1) * 26 ^ length (chr (26 + MAGIC_NUMBER) # acc) + col_of (chr (26 + MAGIC_NUMBER) # acc)"
        "(\<forall>ch \<in> set (chr (26 + MAGIC_NUMBER) # acc). is_upper_letter ch) \<longrightarrow> (\<forall>ch \<in> set s. is_upper_letter ch)"
        by auto
      have step: "column_label_loop d acc = column_label_loop (q - 1) (chr (26 + MAGIC_NUMBER) # acc)"
        using nz pos True by (subst column_label_loop.simps) (simp add: q_def m_def Let_def)
      have o: "ord (chr 90) = 90" by (simp add: ord_chr)
      have c1: "col_of (chr (26 + MAGIC_NUMBER) # acc) = col_of acc + 26 * 26 ^ length acc"
        by (simp add: col_of_Cons o MAGIC_NUMBER_def)
      have "col_of s = (q - 1) * (26 * 26 ^ length acc) + (col_of acc + 26 * 26 ^ length acc)"
        by (simp only: s(2) c1 length_Cons power_Suc)
      also have "\<dots> = (26 * q) * 26 ^ length acc + col_of acc"
        by (simp add: algebra_simps)
      also have "26 * q = d"
        by (simp add: dqm True)
      finally have "col_of s = d * 26 ^ length acc + col_of acc" .
      moreover have up: "is_upper_letter (chr (26 + MAGIC_NUMBER))"
        by (simp add: is_upper_letter_def MAGIC_NUMBER_def o)
      have "(\<forall>ch \<in> set acc. is_upper_letter ch) \<longrightarrow> (\<forall>ch \<in> set s. is_upper_letter ch)"
        using s(3) up by simp
      ultimately show ?thesis using s(1) step by simp
    next
      case False
      have "\<exists>s. column_label_loop q (chr (m + MAGIC_NUMBER) # acc) = Some s
        \<and> col_of s = q * 26 ^ length (chr (m + MAGIC_NUMBER) # acc) + col_of (chr (m + MAGIC_NUMBER) # acc)
        \<and> ((\<forall>ch \<in> set (chr (m + MAGIC_NUMBER) # acc). is_upper_letter ch) \<longrightarrow> (\<forall>ch \<in> set s. is_upper_letter ch))"
        using nz pos False q0 by (intro "1.IH"(2)[of q m]) (simp_all add: q_def m_def)
      then obtain s where s: "column_label_loop q (chr (m + MAGIC_NUMBER) # acc) = Some s"
        "col_of s = q * 26 ^ length (chr (m + MAGIC_NUMBER) # acc) + col_of (chr (m + MAGIC_NUMBER) # acc)"
        "(\<forall>ch \<in> set (chr (m + MAGIC_NUMBER) # acc). is_upper_letter ch) \<longrightarrow> (\<forall>ch \<in> set s. is_upper_letter ch)"
        by auto
      have step: "column_label_loop d acc = column_label_loop q (chr (m + MAGIC_NUMBER) # acc)"
        using nz pos False by (subst column_label_loop.simps) (simp add: q_def m_def Let_def)
      have o: "ord (chr (m + 64)) = m + 64" using mr by (simp add: ord_chr)
      have c1: "col_of (chr (m + MAGIC_NUMBER) # acc) = col_of acc + m * 26 ^ length acc"
        by (simp add: col_of_Cons o MAGIC_NUMBER_def)
      have "col_of s = q * (26 * 26 ^ length acc) + (col_of acc + m * 26 ^ length acc)"
        by (simp only: s(2) c1 length_Cons power_Suc)
      also have "\<dots> = (26 * q + m) * 26 ^ length acc + col_of acc"
        by (simp add: algebra_simps)
      also have "26 * q + m = d"
        by (simp add: dqm)
      finally have "col_of s = d * 26 ^ length acc + col_of acc" .
      moreover have "1 \<le> m"
        using mr False by linarith
      then have "65 \<le> m + 64 \<and> m + 64 \<le> 90"
        using mr by linarith
      then have up: "is_upper_letter (chr (m + MAGIC_NUMBER))"
        by (simp only: is_upper_letter_def MAGIC_NUMBER_def o)
      have "(\<forall>ch \<in> set acc. is_upper_letter ch) \<longrightarrow> (\<forall>ch \<in> set s. is_upper_letter ch)"
        using s(3) up by simp
      ultimately show ?thesis using s(1) step by simp
    qed
  qed
qed


lemma upper_letter_alpha: "is_upper_letter ch \<Longrightarrow> is_alpha ch"
  by (simp add: is_upper_letter_def is_alpha_def)

lemma digit_not_alpha: "is_digit ch \<Longrightarrow> \<not> is_alpha ch"
  by (simp add: is_digit_def is_alpha_def)

lemma upper_upper_letters: "\<forall>ch \<in> set s. is_upper_letter ch \<Longrightarrow> upper s = s"
  by (induction s) (simp_all add: upper_def upper_char_def is_upper_letter_def)

lemma re_match_label_letters_digits:
  assumes L: "\<forall>ch \<in> set l. is_upper_letter ch"
    and D: "\<forall>ch \<in> set ds. is_digit ch"
  shows "re_match_label (l @ ds) = Some (l, ds)"
proof -
  have la: "\<forall>ch \<in> set l. is_alpha ch"
    using L by (simp add: upper_letter_alpha)
  have dn: "takeWhile is_alpha ds = []" "dropWhile is_alpha ds = ds"
    using D by (cases ds; simp add: digit_not_alpha)+
  have "takeWhile is_alpha (l @ ds) = l"
    using la dn by (simp add: takeWhile_append2)
  moreover have "dropWhile is_alpha (l @ ds) = ds"
    using la dn by (simp add: dropWhile_append2)
  moreover have "takeWhile is_digit ds = ds"
    using D by (simp add: takeWhile_eq_all_conv)
  ultimately show ?thesis
    by (simp add: re_match_label_def)
qed

lemma value_as_label_bound:
  assumes r: "1 \<le> r" and c: "1 \<le> c"
  shows "\<exists>l. value_as_label \<lparr>addr_value = (Some r, Some c), allow_non_single = ans\<rparr>
               = Inr (l @ str_nat (nat r))
             \<and> (\<forall>ch \<in> set l. is_upper_letter ch) \<and> col_of l = c"
proof -
  from c have "0 \<le> c" by simp
  from column_label_loop_inv [OF this, of "[]"]
  obtain l where l: "column_label_loop c [] = Some l" "col_of l = c"
    "\<forall>ch \<in> set l. is_upper_letter ch"
    by (auto simp: col_of_def)
  have "validate \<lparr>addr_value = (Some r, Some c), allow_non_single = ans\<rparr> = Inr ()"
    using r c by (simp add: validate_def)
  then have "value_as_label \<lparr>addr_value = (Some r, Some c), allow_non_single = ans\<rparr>
      = Inr (l @ str_nat (nat r))"
    using r c l(1) by (simp add: value_as_label_def str_int_def)
  with l show ?thesis by blast
qed

lemma label_to_coordinates_label:
  assumes r: "1 \<le> r" and c: "1 \<le> c"
    and L: "\<forall>ch \<in> set l. is_upper_letter ch" and cl: "col_of l = c"
  shows "label_to_coordinates ans (l @ str_nat (nat r)) = Inr (Some r, Some c)"
proof -
  have m: "re_match_label (l @ str_nat (nat r)) = Some (l, str_nat (nat r))"
    using L str_nat_digits by (rule re_match_label_letters_digits)
  have ne: "l \<noteq> []"
    using cl c by (auto simp: col_of_def)
  have row: "int_of_digits (str_nat (nat r)) = r"
    using r by (simp add: int_of_digits_str_nat)
  show ?thesis
    using m ne row cl r c
    by (simp add: label_to_coordinates_def upper_upper_letters [OF L] str_nat_nonempty
        col_of_def)
qed

text \<open>
  Claim C3. For every pair \<open>(r, c)\<close> with \<open>r \<ge> 1\<close> and \<open>c \<ge> 1\<close>, \<open>Address((r, c))\<close>
  is constructed, its label is produced, and an Address made from that label has the
  coordinates \<open>(r, c)\<close> again (whatever the two \<open>allow_non_single\<close> flags are). The
  columns 1, 26, 27, 52, 53, 702 and 703 are written \<open>A\<close>, \<open>Z\<close>, \<open>AA\<close>, \<open>AZ\<close>,
  \<open>BA\<close>, \<open>ZZ\<close> and \<open>AAA\<close>, and these labels are parsed back to the same columns.
\<close>

theorem Address_label_roundtrip:
  assumes "1 \<le> r" and "1 \<le> c"
  shows "(\<exists>a l a'. Address_init (Tup (Some r) (Some c)) ans = Inr a
            \<and> addr_value a = (Some r, Some c)
            \<and> value_as_label a = Inr l
            \<and> Address_init (Str l) ans' = Inr a'
            \<and> addr_value a' = (Some r, Some c))
         \<and> map (\<lambda>k. value_as_label \<lparr>addr_value = (None, Some k), allow_non_single = True\<rparr>)
               [1, 26, 27, 52, 53, 702, 703]
             = map Inr [''A'', ''Z'', ''AA'', ''AZ'', ''BA'', ''ZZ'', ''AAA'']
         \<and> map (label_to_coordinates True) [''A'', ''Z'', ''AA'', ''AZ'', ''BA'', ''ZZ'', ''AAA'']
             = map (\<lambda>k. Inr (None, Some k)) [1, 26, 27, 52, 53, 702, 703]"
proof -
  let ?a = "\<lparr>addr_value = (Some r, Some c), allow_non_single = ans\<rparr>"
  have init: "Address_init (Tup (Some r) (Some c)) ans = Inr ?a"
    using assms by (simp add: checked_def validate_def)
  from value_as_label_bound [OF assms, of ans]
  obtain l where l: "value_as_label ?a = Inr (l @ str_nat (nat r))"
    "\<forall>ch \<in> set l. is_upper_letter ch" "col_of l = c"
    by blast
  have "label_to_coordinates ans' (l @ str_nat (nat r)) = Inr (Some r, Some c)"
    using assms l(2,3) by (rule label_to_coordinates_label)
  then have "Address_init (Str (l @ str_nat (nat r))) ans'
      = Inr \<lparr>addr_value = (Some r, Some c), allow_non_single = ans'\<rparr>"
    by simp
  with init l(1) have general: "\<exists>a l a'. Address_init (Tup (Some r) (Some c)) ans = Inr a
            \<and> addr_value a = (Some r, Some c)
            \<and> value_as_label a = Inr l
            \<and> Address_init (Str l) ans' = Inr a'
            \<and> addr_value a' = (Some r, Some c)"
    by simp
  have written: "map (\<lambda>k. value_as_label \<lparr>addr_value = (None, Some k), allow_non_single = True\<rparr>)
               [1, 26, 27, 52, 53, 702, 703]
             = map Inr [''A'', ''Z'', ''AA'', ''AZ'', ''BA'', ''ZZ'', ''AAA'']"
    by code_simp
  have parsed: "map (label_to_coordinates True) [''A'', ''Z'', ''AA'', ''AZ'', ''BA'', ''ZZ'', ''AAA'']
             = map (\<lambda>k. Inr (None, Some k)) [1, 26, 27, 52, 53, 702, 703]"
    by code_simp
  from general written parsed show ?thesis
    by (intro conjI)
qed

theorem Address_label_roundtrip_witness:
  "\<exists>a l a'. Address_init (Tup (Some 12) (Some 703)) False = Inr a
      \<and> addr_value a = (Some 12, Some 703)
      \<and> value_as_label a = Inr l
      \<and> Address_init (Str l) False = Inr a'
      \<and> addr_value a' = (Some 12, Some 703)"
  using Address_label_roundtrip [of 12 703 False False, THEN conjunct1] by simp

subsection \<open>Labels and coordinates of a range\<close>

lemma split_on_no_sep: "sep \<notin> set s \<Longrightarrow> split_on sep s = [s]"
  by (induction s) auto

lemma split_on_append_sep:
  "sep \<notin> set a \<Longrightarrow> split_on sep (a @ sep # b) = a # split_on sep b"
  by (induction a) auto

lemma split_on_two:
  "sep \<notin> set a \<Longrightarrow> sep \<notin> set b \<Longrightarrow> split_on sep (a @ sep # b) = [a, b]"
  by (simp add: split_on_append_sep split_on_no_sep)

lemma label_no_separators:
  assumes "\<forall>ch \<in> set l. is_upper_letter ch"
  shows "CHR ''!'' \<notin> set (l @ str_nat n)" and "CHR '':'' \<notin> set (l @ str_nat n)"
proof -
  have "\<not> is_upper_letter CHR ''!''" "\<not> is_digit CHR ''!''"
       "\<not> is_upper_letter CHR '':''" "\<not> is_digit CHR '':''"
    by (simp_all add: is_upper_letter_def is_digit_def ord_def)
  with assms str_nat_digits [of n]
  show "CHR ''!'' \<notin> set (l @ str_nat n)" and "CHR '':'' \<notin> set (l @ str_nat n)"
    by auto
qed

lemma calculate_label_bound:
  assumes "addr_value (gr_start g) = (Some sr, Some sc)"
    and "addr_value (gr_end g) = (Some er, Some ec)"
    and "value_as_label (gr_start g) = Inr ls" and "value_as_label (gr_end g) = Inr le"
  shows "calculate_label g
     = Inr (g\<lparr>gr_label := Some ((case worksheet_title g of None \<Rightarrow> [] | Some t \<Rightarrow> t)
                                   @ ''!'' @ ls @ '':'' @ le)\<rparr>)"
  using assms by (simp add: calculate_label_def addr_bool_def Let_def)

lemma apply_index_constraints_bound:
  assumes s: "addr_value (gr_start g) = (Some sr, Some sc)"
    and e: "addr_value (gr_end g) = (Some er, Some ec)"
    and "1 \<le> sr" "sr \<le> er" "1 \<le> sc" "sc \<le> ec"
    and l: "value_as_label (gr_start g) = Inr ls" "value_as_label (gr_end g) = Inr le"
  shows "apply_index_constraints ''start'' g
     = Inr (g\<lparr>gr_label := Some ((case worksheet_title g of None \<Rightarrow> [] | Some t \<Rightarrow> t)
                                   @ ''!'' @ ls @ '':'' @ le)\<rparr>)"
proof -
  have p: "propagate ''start'' g = g"
    using s e by (simp add: propagate_def addr_bool_def Let_def)
  have m: "\<not> axis_mismatch g"
    using s e assms(3-6) by (simp add: axis_mismatch_def)
  have o: "check_order g = None"
    using s e assms(3-6) by (simp add: check_order_def addr_bool_def)
  have n: "addr_bool (gr_start g)"
    using s by (simp add: addr_bool_def)
  show ?thesis
    using p m o n calculate_label_bound [OF s e l]
    by (simp add: apply_index_constraints_def)
qed

lemma calculate_addresses_from_label:
  assumes lab: "gr_label g = Some (t @ CHR ''!'' # ls @ CHR '':'' # le)"
    and unb: "addr_value (gr_start g) = (None, None)"
    and ws: "gr_worksheet g = None \<or> gr_worksheet g = Some (w\<lparr>title := t\<rparr>)"
    and nt: "CHR ''!'' \<notin> set t" "CHR ''!'' \<notin> set ls" "CHR ''!'' \<notin> set le"
    and nc: "CHR '':'' \<notin> set ls" "CHR '':'' \<notin> set le"
    and ps: "label_to_coordinates True ls = Inr (Some sr, Some sc)"
    and pe: "label_to_coordinates True le = Inr (Some er, Some ec)"
    and ord: "1 \<le> sr" "sr \<le> er" "1 \<le> sc" "sc \<le> ec"
    and ls: "value_as_label \<lparr>addr_value = (Some sr, Some sc), allow_non_single = True\<rparr> = Inr ls"
    and le: "value_as_label \<lparr>addr_value = (Some er, Some ec), allow_non_single = True\<rparr> = Inr le"
  shows "calculate_addresses g
     = Inr (g\<lparr>gr_worksheet_title :=
                  (case gr_worksheet g of None \<Rightarrow> Some t | Some _ \<Rightarrow> gr_worksheet_title g),
              gr_label := Some (t @ CHR ''!'' # ls @ CHR '':'' # le),
              gr_start := \<lparr>addr_value = (Some sr, Some sc), allow_non_single = True\<rparr>,
              gr_end := \<lparr>addr_value = (Some er, Some ec), allow_non_single = True\<rparr>\<rparr>)"
proof -
  let ?s = "\<lparr>addr_value = (Some sr, Some sc), allow_non_single = True\<rparr>"
  let ?e = "\<lparr>addr_value = (Some er, Some ec), allow_non_single = True\<rparr>"
  let ?u = "\<lparr>addr_value = (None, None), allow_non_single = True\<rparr>"
  let ?rem = "ls @ CHR '':'' # le"
  define g1 where "g1 = (case gr_worksheet g of None \<Rightarrow> g\<lparr>gr_worksheet_title := Some t, gr_label := Some t\<rparr>
                         | Some _ \<Rightarrow> g)"
  have parts: "split_on CHR ''!'' (t @ CHR ''!'' # ?rem) = [t, ?rem]"
    using nt by (intro split_on_two) simp_all
  have colon: "split_on CHR '':'' ?rem = [ls, le]"
    using nc by (intro split_on_two) simp_all
  have title: "set_worksheet_title t g = Inr g1"
    using ws unb
    by (auto simp: set_worksheet_title_def g1_def calculate_label_def worksheet_title_def
        addr_bool_def Let_def)
  let ?g3 = "g1\<lparr>gr_start := ?s, gr_end := ?e\<rparr>"
  have wt: "worksheet_title ?g3 = Some t"
    using ws by (auto simp: worksheet_title_def g1_def)
  have "apply_index_constraints ''start'' ?g3
      = Inr (?g3\<lparr>gr_label := Some ((case worksheet_title ?g3 of None \<Rightarrow> [] | Some t \<Rightarrow> t)
                                   @ ''!'' @ ls @ '':'' @ le)\<rparr>)"
    using ord ls le by (intro apply_index_constraints_bound [where sr = sr and sc = sc and er = er and ec = ec]) simp_all
  then have a: "apply_index_constraints ''start'' ?g3
      = Inr (?g3\<lparr>gr_label := Some (t @ CHR ''!'' # ?rem)\<rparr>)"
    by (simp add: wt)
  have "calculate_addresses g = apply_index_constraints ''start'' ?g3"
    by (simp add: calculate_addresses_def lab parts colon title checked_def validate_def
        ps pe Let_def)
  with a show ?thesis
    using ws by (auto simp: g1_def)
qed

text \<open>
  Claim C6. Label and coordinates of a GridRange are consistent, in both directions
  and on the whole object. For every start \<open>(sr, sc)\<close> and end \<open>(er, ec)\<close> with
  \<open>1 \<le> sr \<le> er\<close> and \<open>1 \<le> sc \<le> ec\<close>, with \<open>ls\<close> and \<open>le\<close> the labels of
  the two addresses: \<open>GridRange(start=(sr, sc), end=(er, ec))\<close>, with any worksheet
  object, title and id, is constructed with exactly these coordinates and the label
  \<open>title!ls:le\<close>, the title being that of the worksheet object when there is one and
  otherwise the title given (empty when none is); and for every title \<open>t\<close> without
  \<open>!\<close>, \<open>GridRange(label=t!ls:le)\<close>, detached or attached to a worksheet object
  titled \<open>t\<close>, is constructed with start \<open>(sr, sc)\<close>, end \<open>(er, ec)\<close>, that same
  label and, when detached, the title \<open>t\<close>. At \<open>(1,1)\<close>, \<open>(3,3)\<close> and
  \<open>Sheet1\<close> the label is \<open>Sheet1!A1:C3\<close>.
\<close>

theorem GridRange_label_coordinates_consistent:
  assumes ord: "1 \<le> sr" "sr \<le> er" "1 \<le> sc" "sc \<le> ec" and nt: "CHR ''!'' \<notin> set t"
  shows "\<exists>ls le.
      value_as_label \<lparr>addr_value = (Some sr, Some sc), allow_non_single = True\<rparr> = Inr ls
    \<and> value_as_label \<lparr>addr_value = (Some er, Some ec), allow_non_single = True\<rparr> = Inr le
    \<and> GridRange_init None ws (Tup (Some sr) (Some sc)) (Tup (Some er) (Some ec)) tt i None
        = Inr \<lparr>gr_worksheet_title = tt, gr_worksheet_id = i, gr_worksheet = ws,
               gr_label = Some ((case ws of Some w' \<Rightarrow> title w'
                                 | None \<Rightarrow> (case tt of None \<Rightarrow> [] | Some t' \<Rightarrow> t'))
                                @ ''!'' @ ls @ '':'' @ le),
               gr_start = \<lparr>addr_value = (Some sr, Some sc), allow_non_single = True\<rparr>,
               gr_end = \<lparr>addr_value = (Some er, Some ec), allow_non_single = True\<rparr>\<rparr>
    \<and> GridRange_init (Some (t @ ''!'' @ ls @ '':'' @ le)) None PyNone PyNone tt i None
        = Inr \<lparr>gr_worksheet_title = Some t, gr_worksheet_id = i, gr_worksheet = None,
               gr_label = Some (t @ ''!'' @ ls @ '':'' @ le),
               gr_start = \<lparr>addr_value = (Some sr, Some sc), allow_non_single = True\<rparr>,
               gr_end = \<lparr>addr_value = (Some er, Some ec), allow_non_single = True\<rparr>\<rparr>
    \<and> GridRange_init (Some (t @ ''!'' @ ls @ '':'' @ le)) (Some (w\<lparr>title := t\<rparr>))
          PyNone PyNone tt i None
        = Inr \<lparr>gr_worksheet_title = tt, gr_worksheet_id = i,
               gr_worksheet = Some (w\<lparr>title := t\<rparr>),
               gr_label = Some (t @ ''!'' @ ls @ '':'' @ le),
               gr_start = \<lparr>addr_value = (Some sr, Some sc), allow_non_single = True\<rparr>,
               gr_end = \<lparr>addr_value = (Some er, Some ec), allow_non_single = True\<rparr>\<rparr>"
proof -
  let ?s = "\<lparr>addr_value = (Some sr, Some sc), allow_non_single = True\<rparr>"
  let ?e = "\<lparr>addr_value = (Some er, Some ec), allow_non_single = True\<rparr>"
  let ?u = "\<lparr>addr_value = (None, None), allow_non_single = True\<rparr>"
  have ord': "1 \<le> er" "1 \<le> ec"
    using ord by simp_all
  from value_as_label_bound [OF ord(1) ord(3), of True]
  obtain l1 where l1: "value_as_label ?s = Inr (l1 @ str_nat (nat sr))"
    "\<forall>ch \<in> set l1. is_upper_letter ch" "col_of l1 = sc"
    by blast
  from value_as_label_bound [OF ord', of True]
  obtain l2 where l2: "value_as_label ?e = Inr (l2 @ str_nat (nat er))"
    "\<forall>ch \<in> set l2. is_upper_letter ch" "col_of l2 = ec"
    by blast
  define ls where "ls = l1 @ str_nat (nat sr)"
  define le where "le = l2 @ str_nat (nat er)"
  have vs: "value_as_label ?s = Inr ls" and ve: "value_as_label ?e = Inr le"
    using l1(1) l2(1) by (simp_all add: ls_def le_def)
  have ps: "label_to_coordinates True ls = Inr (Some sr, Some sc)"
    unfolding ls_def using ord(1) ord(3) l1(2,3) by (rule label_to_coordinates_label)
  have pe: "label_to_coordinates True le = Inr (Some er, Some ec)"
    unfolding le_def using ord' l2(2,3) by (rule label_to_coordinates_label)
  have sep: "CHR ''!'' \<notin> set ls" "CHR '':'' \<notin> set ls" "CHR ''!'' \<notin> set le" "CHR '':'' \<notin> set le"
    unfolding ls_def le_def
    using label_no_separators [OF l1(2), of "nat sr"] label_no_separators [OF l2(2), of "nat er"]
    by blast+
  have cs: "checked ?s = Inr ?s" and ce: "checked ?e = Inr ?e" and cu: "checked ?u = Inr ?u"
    using ord ord' by (simp_all add: checked_def validate_def)
  let ?g0 = "\<lparr>gr_worksheet_title = tt, gr_worksheet_id = i, gr_worksheet = ws,
              gr_label = None, gr_start = ?s, gr_end = ?e\<rparr>"
  let ?lab = "(case ws of Some w' \<Rightarrow> title w'
               | None \<Rightarrow> (case tt of None \<Rightarrow> [] | Some t' \<Rightarrow> t')) @ ''!'' @ ls @ '':'' @ le"
  have wt: "(case worksheet_title ?g0 of None \<Rightarrow> [] | Some t \<Rightarrow> t)
      = (case ws of Some w' \<Rightarrow> title w' | None \<Rightarrow> (case tt of None \<Rightarrow> [] | Some t' \<Rightarrow> t'))"
    by (simp add: worksheet_title_def split: option.split)
  have "apply_index_constraints ''start'' ?g0
      = Inr (?g0\<lparr>gr_label := Some ((case worksheet_title ?g0 of None \<Rightarrow> [] | Some t \<Rightarrow> t)
                                   @ ''!'' @ ls @ '':'' @ le)\<rparr>)"
    using ord vs ve
    by (intro apply_index_constraints_bound [where sr = sr and sc = sc and er = er and ec = ec])
      simp_all
  then have a: "apply_index_constraints ''start'' ?g0 = Inr (?g0\<lparr>gr_label := Some ?lab\<rparr>)"
    by (simp only: wt)
  have "calculate_label (?g0\<lparr>gr_label := Some ?lab\<rparr>)
      = Inr (?g0\<lparr>gr_label := Some ?lab\<rparr>
               \<lparr>gr_label := Some ((case worksheet_title (?g0\<lparr>gr_label := Some ?lab\<rparr>)
                                    of None \<Rightarrow> [] | Some t \<Rightarrow> t) @ ''!'' @ ls @ '':'' @ le)\<rparr>)"
    using vs ve
    by (intro calculate_label_bound [where sr = sr and sc = sc and er = er and ec = ec])
      simp_all
  then have c: "calculate_label (?g0\<lparr>gr_label := Some ?lab\<rparr>) = Inr (?g0\<lparr>gr_label := Some ?lab\<rparr>)"
    by (simp add: worksheet_title_def split: option.split)
  have forward:
    "GridRange_init None ws (Tup (Some sr) (Some sc)) (Tup (Some er) (Some ec)) tt i None
       = Inr (?g0\<lparr>gr_label := Some ?lab\<rparr>)"
    using a c by (simp add: GridRange_init_def cs ce then_calculate_label_def Let_def)
  let ?L = "t @ CHR ''!'' # ls @ CHR '':'' # le"
  let ?d = "\<lparr>gr_worksheet_title = tt, gr_worksheet_id = i, gr_worksheet = None,
             gr_label = Some ?L, gr_start = ?u, gr_end = ?u\<rparr>"
  let ?a = "\<lparr>gr_worksheet_title = tt, gr_worksheet_id = i, gr_worksheet = Some (w\<lparr>title := t\<rparr>),
             gr_label = Some ?L, gr_start = ?u, gr_end = ?u\<rparr>"
  have "calculate_addresses ?d
     = Inr (?d\<lparr>gr_worksheet_title :=
                  (case gr_worksheet ?d of None \<Rightarrow> Some t | Some _ \<Rightarrow> gr_worksheet_title ?d),
              gr_label := Some ?L, gr_start := ?s, gr_end := ?e\<rparr>)"
    using nt sep ps pe ord vs ve
    by (intro calculate_addresses_from_label [where w = w]) simp_all
  then have d: "calculate_addresses ?d
     = Inr \<lparr>gr_worksheet_title = Some t, gr_worksheet_id = i, gr_worksheet = None,
            gr_label = Some ?L, gr_start = ?s, gr_end = ?e\<rparr>"
    by simp
  have "calculate_addresses ?a
     = Inr (?a\<lparr>gr_worksheet_title :=
                  (case gr_worksheet ?a of None \<Rightarrow> Some t | Some _ \<Rightarrow> gr_worksheet_title ?a),
              gr_label := Some ?L, gr_start := ?s, gr_end := ?e\<rparr>)"
    using nt sep ps pe ord vs ve
    by (intro calculate_addresses_from_label [where w = w]) simp_all
  then have at: "calculate_addresses ?a
     = Inr \<lparr>gr_worksheet_title = tt, gr_worksheet_id = i, gr_worksheet = Some (w\<lparr>title := t\<rparr>),
            gr_label = Some ?L, gr_start = ?s, gr_end = ?e\<rparr>"
    by simp
  have detached:
    "GridRange_init (Some (t @ ''!'' @ ls @ '':'' @ le)) None PyNone PyNone tt i None
       = Inr \<lparr>gr_worksheet_title = Some t, gr_worksheet_id = i, gr_worksheet = None,
              gr_label = Some (t @ ''!'' @ ls @ '':'' @ le), gr_start = ?s, gr_end = ?e\<rparr>"
    using d by (simp add: GridRange_init_def cu Let_def)
  have attached:
    "GridRange_init (Some (t @ ''!'' @ ls @ '':'' @ le)) (Some (w\<lparr>title := t\<rparr>))
         PyNone PyNone tt i None
       = Inr \<lparr>gr_worksheet_title = tt, gr_worksheet_id = i,
              gr_worksheet = Some (w\<lparr>title := t\<rparr>),
              gr_label = Some (t @ ''!'' @ ls @ '':'' @ le), gr_start = ?s, gr_end = ?e\<rparr>"
    using at by (simp add: GridRange_init_def cu Let_def)
  from forward have forward':
    "GridRange_init None ws (Tup (Some sr) (Some sc)) (Tup (Some er) (Some ec)) tt i None
        = Inr \<lparr>gr_worksheet_title = tt, gr_worksheet_id = i, gr_worksheet = ws,
               gr_label = Some ?lab, gr_start = ?s, gr_end = ?e\<rparr>"
    by simp
  from vs ve forward' detached attached show ?thesis
    by (intro exI [of _ ls] exI [of _ le] conjI)
qed

theorem GridRange_label_coordinates_consistent_witness:
  "GridRange_init None (Some \<lparr>sheet_id = 0, title = ''Sheet1'', rows = 100, cols = 26\<rparr>)
       (Tup (Some 1) (Some 1)) (Tup (Some 3) (Some 3)) None None None
     = Inr \<lparr>gr_worksheet_title = None, gr_worksheet_id = None,
            gr_worksheet = Some \<lparr>sheet_id = 0, title = ''Sheet1'', rows = 100, cols = 26\<rparr>,
            gr_label = Some ''Sheet1!A1:C3'',
            gr_start = \<lparr>addr_value = (Some 1, Some 1), allow_non_single = True\<rparr>,
            gr_end = \<lparr>addr_value = (Some 3, Some 3), allow_non_single = True\<rparr>\<rparr>
   \<and> GridRange_init (Some ''Sheet1!A1:C3'') None PyNone PyNone None None None
     = Inr \<lparr>gr_worksheet_title = Some ''Sheet1'', gr_worksheet_id = None, gr_worksheet = None,
            gr_label = Some ''Sheet1!A1:C3'',
            gr_start = \<lparr>addr_value = (Some 1, Some 1), allow_non_single = True\<rparr>,
            gr_end = \<lparr>addr_value = (Some 3, Some 3), allow_non_single = True\<rparr>\<rparr>
   \<and> GridRange_init (Some ''Sheet1!A1:C3'')
       (Some \<lparr>sheet_id = 0, title = ''Sheet1'', rows = 100, cols = 26\<rparr>)
       PyNone PyNone None None None
     = Inr \<lparr>gr_worksheet_title = None, gr_worksheet_id = None,
            gr_worksheet = Some \<lparr>sheet_id = 0, title = ''Sheet1'', rows = 100, cols = 26\<rparr>,
            gr_label = Some ''Sheet1!A1:C3'',
            gr_start = \<lparr>addr_value = (Some 1, Some 1), allow_non_single = True\<rparr>,
            gr_end = \<lparr>addr_value = (Some 3, Some 3), allow_non_single = True\<rparr>\<rparr>
   \<and> GridRange_init None None (Tup (Some 2) (Some 27)) (Tup (Some 50) (Some 703))
       (Some ''Data'') None None
     = Inr \<lparr>gr_worksheet_title = Some ''Data'', gr_worksheet_id = None, gr_worksheet = None,
            gr_label = Some ''Data!AA2:AAA50'',
            gr_start = \<lparr>addr_value = (Some 2, Some 27), allow_non_single = True\<rparr>,
            gr_end = \<lparr>addr_value = (Some 50, Some 703), allow_non_single = True\<rparr>\<rparr>
   \<and> GridRange_init (Some ''Data!AA2:AAA50'') None PyNone PyNone None None None
     = Inr \<lparr>gr_worksheet_title = Some ''Data'', gr_worksheet_id = None, gr_worksheet = None,
            gr_label = Some ''Data!AA2:AAA50'',
            gr_start = \<lparr>addr_value = (Some 2, Some 27), allow_non_single = True\<rparr>,
            gr_end = \<lparr>addr_value = (Some 50, Some 703), allow_non_single = True\<rparr>\<rparr>"
proof -
  let ?w = "\<lparr>sheet_id = 0, title = ''Sheet1'', rows = 100, cols = 26\<rparr>"
  have s: "value_as_label \<lparr>addr_value = (Some 1, Some 1), allow_non_single = True\<rparr> = Inr ''A1''"
    by code_simp
  have e: "value_as_label \<lparr>addr_value = (Some 3, Some 3), allow_non_single = True\<rparr> = Inr ''C3''"
    by code_simp
  have s': "value_as_label \<lparr>addr_value = (Some 2, Some 27), allow_non_single = True\<rparr>
      = Inr ''AA2''"
    by code_simp
  have e': "value_as_label \<lparr>addr_value = (Some 50, Some 703), allow_non_single = True\<rparr>
      = Inr ''AAA50''"
    by code_simp
  from GridRange_label_coordinates_consistent [of 1 3 1 3 "''Sheet1''" "Some ?w" None None ?w]
  have sheet1:
    "GridRange_init None (Some ?w) (Tup (Some 1) (Some 1)) (Tup (Some 3) (Some 3)) None None None
       = Inr \<lparr>gr_worksheet_title = None, gr_worksheet_id = None, gr_worksheet = Some ?w,
              gr_label = Some ''Sheet1!A1:C3'',
              gr_start = \<lparr>addr_value = (Some 1, Some 1), allow_non_single = True\<rparr>,
              gr_end = \<lparr>addr_value = (Some 3, Some 3), allow_non_single = True\<rparr>\<rparr>
     \<and> GridRange_init (Some ''Sheet1!A1:C3'') None PyNone PyNone None None None
       = Inr \<lparr>gr_worksheet_title = Some ''Sheet1'', gr_worksheet_id = None,
              gr_worksheet = None, gr_label = Some ''Sheet1!A1:C3'',
              gr_start = \<lparr>addr_value = (Some 1, Some 1), allow_non_single = True\<rparr>,
              gr_end = \<lparr>addr_value = (Some 3, Some 3), allow_non_single = True\<rparr>\<rparr>
     \<and> GridRange_init (Some ''Sheet1!A1:C3'') (Some ?w) PyNone PyNone None None None
       = Inr \<lparr>gr_worksheet_title = None, gr_worksheet_id = None, gr_worksheet = Some ?w,
              gr_label = Some ''Sheet1!A1:C3'',
              gr_start = \<lparr>addr_value = (Some 1, Some 1), allow_non_single = True\<rparr>,
              gr_end = \<lparr>addr_value = (Some 3, Some 3), allow_non_single = True\<rparr>\<rparr>"
    by (simp add: s e)
  from GridRange_label_coordinates_consistent [of 2 50 27 703 "''Data''" None "Some ''Data''" None ?w]
    GridRange_label_coordinates_consistent [of 2 50 27 703 "''Data''" None None None ?w]
  have data:
    "GridRange_init None None (Tup (Some 2) (Some 27)) (Tup (Some 50) (Some 703))
         (Some ''Data'') None None
       = Inr \<lparr>gr_worksheet_title = Some ''Data'', gr_worksheet_id = None, gr_worksheet = None,
              gr_label = Some ''Data!AA2:AAA50'',
              gr_start = \<lparr>addr_value = (Some 2, Some 27), allow_non_single = True\<rparr>,
              gr_end = \<lparr>addr_value = (Some 50, Some 703), allow_non_single = True\<rparr>\<rparr>
     \<and> GridRange_init (Some ''Data!AA2:AAA50'') None PyNone PyNone None None None
       = Inr \<lparr>gr_worksheet_title = Some ''Data'', gr_worksheet_id = None, gr_worksheet = None,
              gr_label = Some ''Data!AA2:AAA50'',
              gr_start = \<lparr>addr_value = (Some 2, Some 27), allow_non_single = True\<rparr>,
              gr_end = \<lparr>addr_value = (Some 50, Some 703), allow_non_single = True\<rparr>\<rparr>"
    by (simp add: s' e')
  from sheet1 data show ?thesis
    by simp
qed

subsection \<open>Constraints between start and end\<close>

lemma value_as_label_valid:
  "validate a = Inr () \<Longrightarrow> value_as_label a \<noteq> Inl InvalidArgumentValue"
  by (simp add: value_as_label_def Let_def split: option.split)

lemma calculate_label_valid:
  assumes "validate (gr_start g) = Inr ()" and "validate (gr_end g) = Inr ()"
  shows "calculate_label g \<noteq> Inl (InvalidArgumentValue, g')"
  using value_as_label_valid [OF assms(1)] value_as_label_valid [OF assms(2)]
  by (auto simp: calculate_label_def Let_def split: sum.split)

lemma validate_setitem_None:
  "allow_non_single a \<Longrightarrow> validate a = Inr () \<Longrightarrow> validate (setitem k None a) = Inr ()"
  by (auto simp: validate_def setitem_def split: if_splits)

lemma allow_setitem: "allow_non_single (setitem k v a) = allow_non_single a"
  by (simp add: setitem_def)

lemma valid_ends_propagate: "valid_ends g \<Longrightarrow> valid_ends (propagate b g)"
  by (simp add: valid_ends_def propagate_def Let_def validate_setitem_None allow_setitem)

lemma propagate_ends_only:
  "propagate b g = g\<lparr>gr_start := gr_start (propagate b g), gr_end := gr_end (propagate b g)\<rparr>"
  by (simp add: propagate_def Let_def)

lemma apply_invalid_iff:
  assumes "valid_ends g"
  shows "apply_index_constraints b g = Inl (InvalidArgumentValue, g') \<longleftrightarrow>
     ((addr_bool (gr_start g) \<or> addr_bool (gr_end g)) \<and> axis_mismatch (propagate b g)
       \<and> g' = collapse b (propagate b g))"
proof -
  from assms have v: "valid_ends (propagate b g)" by (rule valid_ends_propagate)
  then have c: "calculate_label (propagate b g) \<noteq> Inl (InvalidArgumentValue, g')"
    by (simp add: valid_ends_def calculate_label_valid)
  have o: "check_order (propagate b g) \<noteq> Some InvalidArgumentValue"
    by (auto simp: check_order_def Let_def split: option.splits if_splits elim: assert_le.elims)
  show ?thesis
    using c o by (auto simp: apply_index_constraints_def Let_def split: option.splits)
qed

lemma calculate_label_ends:
  "calculate_label g = Inr g1 \<Longrightarrow> gr_start g1 = gr_start g \<and> gr_end g1 = gr_end g"
  by (auto simp: calculate_label_def Let_def split: if_splits sum.splits)

lemma apply_index_constraints_Inr_valid:
  assumes "valid_ends g" and "apply_index_constraints b g = Inr g1"
  shows "valid_ends g1"
proof (cases "\<not> addr_bool (gr_start g) \<and> \<not> addr_bool (gr_end g)")
  case True
  with assms show ?thesis by (simp add: apply_index_constraints_def)
next
  case False
  with assms(2) have "calculate_label (propagate b g) = Inr g1"
    by (auto simp: apply_index_constraints_def Let_def split: if_splits option.splits)
  from calculate_label_ends [OF this] valid_ends_propagate [OF assms(1), of b]
  show ?thesis by (simp add: valid_ends_def)
qed

lemma then_calculate_label_invalid_iff:
  assumes "valid_ends g"
  shows "then_calculate_label (apply_index_constraints b g) = Inl (InvalidArgumentValue, g')
     \<longleftrightarrow> apply_index_constraints b g = Inl (InvalidArgumentValue, g')"
proof (cases "apply_index_constraints b g")
  case (Inl x)
  then show ?thesis by (simp add: then_calculate_label_def)
next
  case (Inr g1)
  with assms have "valid_ends g1" by (rule apply_index_constraints_Inr_valid)
  then have "calculate_label g1 \<noteq> Inl (InvalidArgumentValue, g')"
    by (simp add: valid_ends_def calculate_label_valid)
  with Inr show ?thesis by (simp add: then_calculate_label_def)
qed

text \<open>
  Claim C9. On the error path of \<open>_apply_index_constraints\<close> for an axis bound at one
  end only (the range is not unbound at both ends, and after the propagation step
  some axis is bound at exactly one end), \<open>InvalidArgumentValue\<close> is raised and the
  range is left with start and end both set to one Address: the start left by the
  propagation step when \<open>based_on\<close> is \<open>start\<close>, its end otherwise. Nothing else of
  the range changes, and the range left behind has no axis bound at one end only.
\<close>

theorem apply_index_constraints_mismatch_collapses:
  assumes "addr_bool (gr_start g) \<or> addr_bool (gr_end g)"
    and "axis_mismatch (propagate based_on g)"
  shows "\<exists>a. a = (if based_on = ''start'' then gr_start (propagate based_on g)
                   else gr_end (propagate based_on g))
           \<and> apply_index_constraints based_on g
               = Inl (InvalidArgumentValue, g\<lparr>gr_start := a, gr_end := a\<rparr>)
           \<and> \<not> axis_mismatch (g\<lparr>gr_start := a, gr_end := a\<rparr>)"
proof -
  let ?p = "propagate based_on g"
  let ?a = "if based_on = ''start'' then gr_start ?p else gr_end ?p"
  have "collapse based_on ?p = ?p\<lparr>gr_start := ?a, gr_end := ?a\<rparr>"
    by (simp add: collapse_def)
  also have "\<dots> = g\<lparr>gr_start := ?a, gr_end := ?a\<rparr>"
    by (subst propagate_ends_only) simp
  finally have c: "collapse based_on ?p = g\<lparr>gr_start := ?a, gr_end := ?a\<rparr>" .
  have r: "apply_index_constraints based_on g = Inl (InvalidArgumentValue, collapse based_on ?p)"
    using assms by (auto simp: apply_index_constraints_def Let_def)
  have m: "\<not> axis_mismatch (g\<lparr>gr_start := ?a, gr_end := ?a\<rparr>)"
    by (simp add: axis_mismatch_def Let_def)
  from r c m show ?thesis
    by simp
qed

theorem apply_index_constraints_mismatch_collapses_witness:
  "apply_index_constraints ''start''
     \<lparr>gr_worksheet_title = None, gr_worksheet_id = None, gr_worksheet = None, gr_label = None,
      gr_start = \<lparr>addr_value = (None, Some 1), allow_non_single = True\<rparr>,
      gr_end = \<lparr>addr_value = (Some 3, None), allow_non_single = True\<rparr>\<rparr>
   = Inl (InvalidArgumentValue,
     \<lparr>gr_worksheet_title = None, gr_worksheet_id = None, gr_worksheet = None, gr_label = None,
      gr_start = \<lparr>addr_value = (None, Some 1), allow_non_single = True\<rparr>,
      gr_end = \<lparr>addr_value = (None, Some 1), allow_non_single = True\<rparr>\<rparr>)"
proof -
  let ?g = "\<lparr>gr_worksheet_title = None, gr_worksheet_id = None, gr_worksheet = None,
      gr_label = None,
      gr_start = \<lparr>addr_value = (None, Some 1), allow_non_single = True\<rparr>,
      gr_end = \<lparr>addr_value = (Some 3, None), allow_non_single = True\<rparr>\<rparr>"
  have nonempty: "addr_bool (gr_start ?g) \<or> addr_bool (gr_end ?g)"
    by (simp add: addr_bool_def)
  have p: "gr_start (propagate ''start'' ?g) = \<lparr>addr_value = (None, Some 1), allow_non_single = True\<rparr>"
    "gr_end (propagate ''start'' ?g) = \<lparr>addr_value = (None, None), allow_non_single = True\<rparr>"
    by (simp_all add: propagate_def addr_bool_def setitem_def Let_def)
  have mismatch: "axis_mismatch (propagate ''start'' ?g)"
    by (simp add: axis_mismatch_def p)
  from apply_index_constraints_mismatch_collapses [OF nonempty mismatch] p(1) show ?thesis
    by simp
qed

text \<open>
  Claim C8, as the code has it. For every GridRange whose start and end hold no zero
  coordinate and, on some axis, are both bound with start greater than end,
  \<open>_apply_index_constraints\<close> (which the constructor and the setters of \<open>start\<close>,
  \<open>end\<close> and \<open>indexes\<close> run on the new ends, before \<open>_calculate_label\<close>) fails
  with \<open>AssertionError\<close>, the check being an \<open>assert\<close> statement, and leaves the
  range with the start and end of the propagation step.
\<close>

theorem apply_index_constraints_start_after_end:
  assumes nz: "Some 0 \<notin> {fst (addr_value (gr_start g)), snd (addr_value (gr_start g)),
                         fst (addr_value (gr_end g)), snd (addr_value (gr_end g))}"
    and gt: "(\<exists>a b. fst (addr_value (gr_start g)) = Some a
                   \<and> fst (addr_value (gr_end g)) = Some b \<and> b < a)
           \<or> (\<exists>a b. snd (addr_value (gr_start g)) = Some a
                   \<and> snd (addr_value (gr_end g)) = Some b \<and> b < a)"
  shows "apply_index_constraints ''start'' g = Inl (AssertionError, propagate ''start'' g)
       \<and> then_calculate_label (apply_index_constraints ''start'' g)
           = Inl (AssertionError, propagate ''start'' g)"
proof -
  obtain sr sc where s: "addr_value (gr_start g) = (sr, sc)" by (cases "addr_value (gr_start g)")
  obtain er ec where e: "addr_value (gr_end g) = (er, ec)" by (cases "addr_value (gr_end g)")
  have "apply_index_constraints ''start'' g = Inl (AssertionError, propagate ''start'' g)"
    using nz gt s e
    by (cases sr; cases sc; cases er; cases ec)
       (auto simp: apply_index_constraints_def propagate_def axis_mismatch_def check_order_def
          addr_bool_def setitem_def Let_def)
  then show ?thesis
    by (simp add: then_calculate_label_def)
qed

theorem apply_index_constraints_start_after_end_witness:
  "apply_index_constraints ''start''
     \<lparr>gr_worksheet_title = None, gr_worksheet_id = None, gr_worksheet = None, gr_label = None,
      gr_start = \<lparr>addr_value = (Some 3, Some 3), allow_non_single = True\<rparr>,
      gr_end = \<lparr>addr_value = (Some 1, Some 1), allow_non_single = True\<rparr>\<rparr>
   = Inl (AssertionError,
     \<lparr>gr_worksheet_title = None, gr_worksheet_id = None, gr_worksheet = None, gr_label = None,
      gr_start = \<lparr>addr_value = (Some 3, Some 3), allow_non_single = True\<rparr>,
      gr_end = \<lparr>addr_value = (Some 1, Some 1), allow_non_single = True\<rparr>\<rparr>)"
  using apply_index_constraints_start_after_end [of
     "\<lparr>gr_worksheet_title = None, gr_worksheet_id = None, gr_worksheet = None, gr_label = None,
      gr_start = \<lparr>addr_value = (Some 3, Some 3), allow_non_single = True\<rparr>,
      gr_end = \<lparr>addr_value = (Some 1, Some 1), allow_non_single = True\<rparr>\<rparr>", THEN conjunct1]
  by (simp add: propagate_def addr_bool_def Let_def)

text \<open>
  The claim as the specification has it, at its own input:
  \<open>GridRange(start=(3,3), end=(1,1))\<close> fails with \<open>AssertionError\<close>, which is not
  \<open>InvalidArgumentValue\<close>.
\<close>

theorem GridRange_init_start_after_end_AssertionError:
  "GridRange_init None None (Tup (Some 3) (Some 3)) (Tup (Some 1) (Some 1)) None None None
     = Inl AssertionError
   \<and> GridRange_init None None (Tup (Some 3) (Some 3)) (Tup (Some 1) (Some 1)) None None None
     \<noteq> Inl InvalidArgumentValue"
  by code_simp

text \<open>
  Claim C4, as the code has it. Constructing a GridRange from a start tuple
  \<open>(sr, sc)\<close> and an end tuple \<open>(er, ec)\<close>, each component \<open>None\<close> or at least 1,
  with any worksheet, title and id, fails with \<open>InvalidArgumentValue\<close> exactly when
  start is not unbound on both axes, the row axis is unbound at one end at least, and
  the column axis is bound at exactly one end. (The propagation step comes first: it
  unbinds the row axis at both ends when either row is \<open>None\<close>, and otherwise the
  column axis when either column is \<open>None\<close>; only what is left bound at one end
  raises.)
\<close>

theorem GridRange_init_mismatch_iff:
  assumes "bound_or_absent sr" "bound_or_absent sc" "bound_or_absent er" "bound_or_absent ec"
  shows "GridRange_init None w (Tup sr sc) (Tup er ec) t i None = Inl InvalidArgumentValue
     \<longleftrightarrow> ((sr \<noteq> None \<or> sc \<noteq> None) \<and> (sr = None \<or> er = None) \<and> ((sc = None) \<noteq> (ec = None)))"
proof -
  let ?s = "\<lparr>addr_value = (sr, sc), allow_non_single = True\<rparr>"
  let ?e = "\<lparr>addr_value = (er, ec), allow_non_single = True\<rparr>"
  let ?g = "\<lparr>gr_worksheet_title = t, gr_worksheet_id = i, gr_worksheet = w, gr_label = None,
             gr_start = ?s, gr_end = ?e\<rparr>"
  have vs: "validate ?s = Inr ()" "validate ?e = Inr ()"
    using assms by (auto simp: validate_def bound_or_absent_def split: option.splits)
  then have init: "checked ?s = Inr ?s" "checked ?e = Inr ?e"
    by (simp_all add: checked_def)
  have v: "valid_ends ?g"
    using vs by (simp add: valid_ends_def)
  have "GridRange_init None w (Tup sr sc) (Tup er ec) t i None
      = (case then_calculate_label (apply_index_constraints ''start'' ?g) of
           Inl (err, _) \<Rightarrow> Inl err | Inr g' \<Rightarrow> Inr g')"
    by (simp add: GridRange_init_def init Let_def)
  then have "GridRange_init None w (Tup sr sc) (Tup er ec) t i None = Inl InvalidArgumentValue
      \<longleftrightarrow> (\<exists>g'. then_calculate_label (apply_index_constraints ''start'' ?g)
                   = Inl (InvalidArgumentValue, g'))"
    by (auto split: sum.splits)
  also have "\<dots> \<longleftrightarrow> ((addr_bool ?s \<or> addr_bool ?e) \<and> axis_mismatch (propagate ''start'' ?g))"
    using v by (simp add: then_calculate_label_invalid_iff apply_invalid_iff)
  also have "\<dots> \<longleftrightarrow> ((sr \<noteq> None \<or> sc \<noteq> None) \<and> (sr = None \<or> er = None)
                       \<and> ((sc = None) \<noteq> (ec = None)))"
    using assms
    by (cases sr; cases sc; cases er; cases ec)
       (auto simp: propagate_def axis_mismatch_def addr_bool_def setitem_def Let_def
          bound_or_absent_def)
  finally show ?thesis .
qed

theorem GridRange_init_mismatch_iff_witness:
  "GridRange_init None None (Tup None (Some 1)) (Tup (Some 3) None) None None None
     = Inl InvalidArgumentValue"
  using GridRange_init_mismatch_iff [of None "Some 1" "Some 3" None None None None]
  by (simp add: bound_or_absent_def)

text \<open>
  The claim as the specification has it, at its own input:
  \<open>GridRange(start=(1, None), end=(3, 3))\<close> raises nothing. The propagation step
  unbinds the column of end, and the range is constructed as rows 1 to 3.
\<close>

theorem GridRange_init_unbound_column_propagated:
  "GridRange_init None None (Tup (Some 1) None) (Tup (Some 3) (Some 3)) None None None
     = Inr \<lparr>gr_worksheet_title = None, gr_worksheet_id = None, gr_worksheet = None,
            gr_label = Some ''!1:3'',
            gr_start = \<lparr>addr_value = (Some 1, None), allow_non_single = True\<rparr>,
            gr_end = \<lparr>addr_value = (Some 3, None), allow_non_single = True\<rparr>\<rparr>"
  by code_simp


subsection \<open>Bounded indexes\<close>

text \<open>
  Claim C5. An unbound axis of start is to default to index 1. The code evaluated at
  the claim's input, a fully unbound GridRange attached to a worksheet with
  \<open>rows=100, cols=26\<close>: the default written in \<open>get_bounded_indexes\<close> is \<open>0\<close>, so
  the pair is \<open>((0,0), (100,26))\<close>, the height 101 and the width 27.
\<close>

theorem get_bounded_indexes_unbound_start_zero:
  "GridRange_init None (Some \<lparr>sheet_id = 0, title = ''Sheet1'', rows = 100, cols = 26\<rparr>)
     PyNone PyNone None None None
     = Inr \<lparr>gr_worksheet_title = None, gr_worksheet_id = None,
            gr_worksheet = Some \<lparr>sheet_id = 0, title = ''Sheet1'', rows = 100, cols = 26\<rparr>,
            gr_label = Some ''Sheet1'',
            gr_start = \<lparr>addr_value = (None, None), allow_non_single = True\<rparr>,
            gr_end = \<lparr>addr_value = (None, None), allow_non_single = True\<rparr>\<rparr>
   \<and> (let g = \<lparr>gr_worksheet_title = None, gr_worksheet_id = None,
            gr_worksheet = Some \<lparr>sheet_id = 0, title = ''Sheet1'', rows = 100, cols = 26\<rparr>,
            gr_label = Some ''Sheet1'',
            gr_start = \<lparr>addr_value = (None, None), allow_non_single = True\<rparr>,
            gr_end = \<lparr>addr_value = (None, None), allow_non_single = True\<rparr>\<rparr>
       in get_bounded_indexes g
            = Inr (\<lparr>addr_value = (Some 0, Some 0), allow_non_single = False\<rparr>,
                   \<lparr>addr_value = (Some 100, Some 26), allow_non_single = False\<rparr>)
          \<and> height g = Inr 101 \<and> width g = Inr 27)"
  by code_simp

subsection \<open>Wire JSON\<close>

text \<open>
  Claim C1. \<open>set_json\<close> followed by \<open>to_json\<close> is to give back the four indices.
  The code evaluated at the claim's input, on a GridRange made from that JSON object:
  \<open>to_json\<close> writes the start row as \<open>startColumnIndex\<close> and the end row less one as
  \<open>endRowIndex\<close>, so \<open>startColumnIndex\<close> comes back as 1 for 0 and \<open>endRowIndex\<close>
  as 2 for 3.
\<close>

theorem to_json_after_set_json_differs:
  "(case GridRange_init None None PyNone PyNone None None
           (Some [(''sheetId'', Some 0), (''startRowIndex'', Some 0), (''endRowIndex'', Some 3),
                  (''startColumnIndex'', Some 0), (''endColumnIndex'', Some 3)]) of
      Inl e \<Rightarrow> None
    | Inr g \<Rightarrow> (case to_json g of Inl x \<Rightarrow> None | Inr (j, g') \<Rightarrow> Some j))
   = Some [(''sheetId'', Some 0), (''startRowIndex'', Some 0), (''startColumnIndex'', Some 1),
           (''endRowIndex'', Some 2), (''endColumnIndex'', Some 3)]"
  by code_simp

end
